theory Spec2Isabelle
  imports Complex_Main "HOL-Library.Signed_Division" "HOL-Library.Log_Nat"
begin

section \<open>Data model of \<open>Gun.ts\<close>\<close>

text \<open>
  The weapon is the class \<open>Gun\<close> of \<open>src/Gun.ts\<close>. Its configuration (\<open>this.props\<close>) is
  the record \<open>props\<close>; its mutable fields are the record \<open>Gun\<close>, passed explicitly.
  Ammunition counts are the integers of the data model (\<open>loaded: int\<close>, \<open>reserve: int\<close>);
  \<open>NaN\<close> and the infinities of the JavaScript number type are outside the model. The
  sum and the differences of \<open>triggerReload\<close> are computed as the number type computes
  them on integers, rounded to the nearest double (\<open>js_add\<close>, \<open>js_sub\<close>).
  A timer handle (\<open>this.async.setTimeout\<close>, \<open>setInterval\<close>) is an optional due time on
  the weapon's clock, in milliseconds: \<open>None\<close> is \<open>undefined\<close>.
\<close>

record props =
  attackRate :: int
  autoAttack :: bool
  ammoPerFire :: int
  clipSize :: int
  maxAmmo :: int
  startingAmmo :: int
  startingReserveAmmo :: int
  autoReload :: bool
  bulletBurstPerFire :: int
  bulletBurstDelay :: int
  assetSpawner :: bool

text \<open>\<open>FXList\<close>: one pooled effect group, the particle gizmos named by entity id.\<close>

record FXList =
  fx :: "nat list"

text \<open>\<open>GunState\<close>: the snapshot handed over with the ownership of the weapon.\<close>

record GunState =
  loadedAmmo :: int
  reserveAmmo :: int
  impactFX :: "FXList list"
  missFX :: "FXList list"

text \<open>
  What the weapon sends out, in order: the two ammo notifications with their payload
  \<open>{current, previous}\<close>, the out-of-ammo cue, the effects of one shot (\<open>finishFiring\<close>:
  muzzle, fire sound, shell and hit detection) stamped with the clock, the reload cue,
  the grip animations and the two messages to the asset spawner.
\<close>

datatype out_event =
    LoadedAmmoChanged int int
  | ReserveAmmoChanged int int
  | OutOfAmmoSFX
  | Fired int
  | ReloadSFX
  | GripFire
  | GripReload
  | SetOwningPlayer nat
  | DespawnAssets "nat list"

text \<open>
  The field \<open>reloadTimer\<close> holds one of two timeouts: the 500 ms delay before an
  automatic reload (its callback calls \<open>triggerReload\<close>) or the 1000 ms window opened by
  a reload (its callback only clears the field).
\<close>

datatype reload_callback = ReloadDelay | ReloadWindow

record Gun = GunState +
  nextImpactFXIdx :: int
  nextMissFXIdx :: int
  attackCooldown :: bool
  attackCooldownTimer :: "int option"
  reloadTimer :: "(int \<times> reload_callback) option"
  autoAttackTimer :: "int option"
  fireDelay :: "int option"
  bulletBurstTimer :: "int option"
  currentBurstCount :: int
  ownerVR :: bool
  propOwner :: nat
  playing :: "nat set"
  destroyed :: "nat set"
  clock :: int
  emitted :: "out_event list"

definition sendEvent :: "out_event \<Rightarrow> Gun \<Rightarrow> Gun" where
  "sendEvent e g = g\<lparr>emitted := emitted g @ [e]\<rparr>"

section \<open>The ammo ledger\<close>

text \<open>The setter of \<open>loadedAmmo\<close> (lines 152-159).\<close>

definition set_loadedAmmo :: "props \<Rightarrow> int \<Rightarrow> Gun \<Rightarrow> Gun" where
  "set_loadedAmmo p v g =
     (let ammoToGrant = min (max 0 (clipSize p)) v;
          previous = loadedAmmo g;
          g1 = g\<lparr>loadedAmmo := max 0 ammoToGrant\<rparr>
      in if previous \<noteq> loadedAmmo g1
         then sendEvent (LoadedAmmoChanged (loadedAmmo g1) previous) g1
         else g1)"

text \<open>The setter of \<open>reserveAmmo\<close> (lines 163-170).\<close>

definition set_reserveAmmo :: "props \<Rightarrow> int \<Rightarrow> Gun \<Rightarrow> Gun" where
  "set_reserveAmmo p v g =
     (let ammoToGrant = min v (max 0 (maxAmmo p) - loadedAmmo g);
          previous = reserveAmmo g;
          g1 = g\<lparr>reserveAmmo := max 0 ammoToGrant\<rparr>
      in if previous \<noteq> reserveAmmo g1
         then sendEvent (ReserveAmmoChanged (reserveAmmo g1) previous) g1
         else g1)"

definition hasUnlimitedAmmo :: "props \<Rightarrow> bool" where
  "hasUnlimitedAmmo p = (ammoPerFire p \<le> 0)"

text \<open>
  The specification's \<open>clamp(v, lo, hi)\<close>, following its words "clamps to [lo, hi]": the
  value is cut at the upper bound and then raised to the lower bound.
\<close>

definition clamp :: "int \<Rightarrow> int \<Rightarrow> int \<Rightarrow> int" where
  "clamp v lo hi = max lo (min v hi)"

text \<open>The ammo invariants of the data model.\<close>

definition ammo_invariants :: "props \<Rightarrow> Gun \<Rightarrow> bool" where
  "ammo_invariants p g =
     (0 \<le> loadedAmmo g \<and> loadedAmmo g \<le> clipSize p \<and>
      0 \<le> reserveAmmo g \<and> reserveAmmo g \<le> maxAmmo p - loadedAmmo g)"

text \<open>The notifications of one kind in what the weapon has sent.\<close>

fun is_loadedAmmoChanged :: "out_event \<Rightarrow> bool" where
  "is_loadedAmmoChanged (LoadedAmmoChanged c q) = True"
| "is_loadedAmmoChanged e = False"

fun is_reserveAmmoChanged :: "out_event \<Rightarrow> bool" where
  "is_reserveAmmoChanged (ReserveAmmoChanged c q) = True"
| "is_reserveAmmoChanged e = False"

definition loadedAmmoChanged_count :: "Gun \<Rightarrow> nat" where
  "loadedAmmoChanged_count g = length (filter is_loadedAmmoChanged (emitted g))"

definition reserveAmmoChanged_count :: "Gun \<Rightarrow> nat" where
  "reserveAmmoChanged_count g = length (filter is_reserveAmmoChanged (emitted g))"

section \<open>Initial state\<close>

text \<open>The defaults of \<open>propsDefinition\<close> (lines 74-85), with an asset spawner attached.\<close>

definition default_props :: props where
  "default_props =
     \<lparr>attackRate = 1000, autoAttack = False, ammoPerFire = 1, clipSize = 10, maxAmmo = 30,
      startingAmmo = 10, startingReserveAmmo = 20, autoReload = False,
      bulletBurstPerFire = 1, bulletBurstDelay = 100, assetSpawner = True\<rparr>"

text \<open>
  The field initialisers of the class (lines 118-161), for a weapon held by the player
  \<open>owner\<close> on a VR or non-VR device, with the clock at zero.
\<close>

definition new_gun :: "bool \<Rightarrow> nat \<Rightarrow> Gun" where
  "new_gun vr owner =
     \<lparr>loadedAmmo = 0, reserveAmmo = 0, impactFX = [], missFX = [],
      nextImpactFXIdx = 0, nextMissFXIdx = 0,
      attackCooldown = False, attackCooldownTimer = None, reloadTimer = None,
      autoAttackTimer = None, fireDelay = None, bulletBurstTimer = None,
      currentBurstCount = 0, ownerVR = vr, propOwner = owner,
      playing = {}, destroyed = {}, clock = 0, emitted = []\<rparr>"

text \<open>The ammo part of \<open>preStart\<close> (lines 199-200).\<close>

definition preStart :: "props \<Rightarrow> Gun \<Rightarrow> Gun" where
  "preStart p g =
     (let g1 = set_loadedAmmo p (startingAmmo p) g
      in set_reserveAmmo p (startingReserveAmmo p) g1)"

section \<open>The firing state machine\<close>

text \<open>
  \<open>resetReload\<close>, \<open>resetBurst\<close> and \<open>resetAutoAttack\<close> (lines 433-453). Each clears its
  timer when the handle is set and leaves the field \<open>undefined\<close>; clearing the field
  when it already is \<open>undefined\<close> changes nothing, so the test on the handle is not
  repeated here.
\<close>

definition resetReload :: "Gun \<Rightarrow> Gun" where
  "resetReload g = g\<lparr>reloadTimer := None\<rparr>"

definition resetBurst :: "Gun \<Rightarrow> Gun" where
  "resetBurst g = g\<lparr>currentBurstCount := 0, bulletBurstTimer := None\<rparr>"

definition resetAutoAttack :: "Gun \<Rightarrow> Gun" where
  "resetAutoAttack g = g\<lparr>autoAttackTimer := None\<rparr>"

text \<open>
  \<open>setTimeout\<close> and \<open>setInterval\<close> of the platform: the callback is due \<open>delay\<close>
  milliseconds after the clock, a delay below zero being served as zero.
\<close>

definition due_after :: "Gun \<Rightarrow> int \<Rightarrow> int" where
  "due_after g delay = clock g + max 0 delay"

text \<open>\<open>canAttack\<close> (lines 641-657).\<close>

definition canAttack :: "props \<Rightarrow> Gun \<Rightarrow> bool" where
  "canAttack p g =
     (if attackCooldown g then False
      else let ammoPerAttack = max 0 (ammoPerFire p)
           in if ammoPerAttack = 0 then True
              else if ammoPerAttack > loadedAmmo g then False
              else True)"

text \<open>\<open>triggerBurst\<close> (lines 737-760); the interval's callback is \<open>onBulletBurst\<close> below.\<close>

definition triggerBurst :: "props \<Rightarrow> Gun \<Rightarrow> Gun" where
  "triggerBurst p g =
     (if bulletBurstPerFire p \<le> 1 then g
      else if bulletBurstTimer g \<noteq> None then g
      else if loadedAmmo g < ammoPerFire p then g
      else g\<lparr>currentBurstCount := max 1 (bulletBurstPerFire p - 1),
             bulletBurstTimer := Some (due_after g (bulletBurstDelay p))\<rparr>)"

text \<open>\<open>triggerAutoAttack\<close> (lines 762-775); the interval's callback is \<open>onAutoAttack\<close>.\<close>

definition triggerAutoAttack :: "props \<Rightarrow> Gun \<Rightarrow> Gun" where
  "triggerAutoAttack p g =
     (if \<not> autoAttack p then g
      else if autoAttackTimer g \<noteq> None then g
      else g\<lparr>autoAttackTimer := Some (due_after g (attackRate p))\<rparr>)"

text \<open>
  \<open>finishFiring\<close> (lines 694-735). The muzzle, sound and shell effects and the hit
  detection (\<open>fireWithRaycast\<close>, \<open>fireWithProjectile\<close>) read and write no ammo or timer
  field; they are the one event \<open>Fired\<close>, stamped with the clock.
\<close>

definition finishFiring :: "props \<Rightarrow> Gun \<Rightarrow> Gun" where
  "finishFiring p g =
     (let g1 = g\<lparr>fireDelay := None\<rparr>;
          g2 = sendEvent (Fired (clock g1)) g1;
          g3 = g2\<lparr>attackCooldownTimer := Some (due_after g2 (max 10 (attackRate p)))\<rparr>;
          g4 = (if loadedAmmo g3 < ammoPerFire p
                then resetAutoAttack (resetBurst g3)
                else triggerAutoAttack p (triggerBurst p g3))
      in if autoReload p \<and> loadedAmmo g4 = 0
         then (resetReload g4)\<lparr>reloadTimer := Some (due_after g4 500, ReloadDelay)\<rparr>
         else g4)"

text \<open>\<open>triggerAttack\<close> (lines 659-692).\<close>

definition triggerAttack :: "props \<Rightarrow> Gun \<Rightarrow> Gun" where
  "triggerAttack p g =
     (if \<not> canAttack p g
      then (let g1 = resetAutoAttack (resetBurst g)
            in if loadedAmmo g1 < ammoPerFire p then sendEvent OutOfAmmoSFX g1 else g1)
      else if fireDelay g \<noteq> None then g
      else (let g1 = g\<lparr>attackCooldown := True\<rparr>;
                g2 = (if ammoPerFire p > 0
                      then set_loadedAmmo p (loadedAmmo g1 - ammoPerFire p) g1
                      else g1)
            in if currentBurstCount g2 > 0 then finishFiring p g2
               else if ownerVR g2 then finishFiring p g2
               else (sendEvent GripFire g2)\<lparr>fireDelay := Some (due_after g2 50)\<rparr>))"

text \<open>
  Addition and subtraction of the JavaScript number type on integers. A double holds
  53 significant bits: an integer of more bits is rounded to the nearest multiple of the
  power of two that leaves 53 bits, a tie going to the even multiple. Integers up to
  \<open>2^53\<close> in magnitude are held exactly. Overflow, beyond the largest double, is not
  modelled.
\<close>

definition js_round :: "int \<Rightarrow> int" where
  "js_round k =
     (let m = \<bar>k\<bar>; e = bitlen m - 53
      in if e \<le> 0 then k
         else (let ulp = 2 ^ nat e; q = m div ulp; r = m mod ulp;
                   q' = (if ulp < 2 * r \<or> (2 * r = ulp \<and> odd q) then q + 1 else q)
               in sgn k * (q' * ulp)))"

definition js_add :: "int \<Rightarrow> int \<Rightarrow> int" where
  "js_add a b = js_round (a + b)"

definition js_sub :: "int \<Rightarrow> int \<Rightarrow> int" where
  "js_sub a b = js_round (a - b)"

text \<open>\<open>triggerReload\<close> (lines 983-1005).\<close>

definition triggerReload :: "props \<Rightarrow> Gun \<Rightarrow> Gun" where
  "triggerReload p g =
     (if reloadTimer g \<noteq> None then g
      else if hasUnlimitedAmmo p then g
      else (let reloadAmount = min (js_sub (clipSize p) (loadedAmmo g)) (reserveAmmo g)
            in if reloadAmount = 0 then g
               else if reloadAmount < ammoPerFire p then g
               else (let g1 = resetAutoAttack (resetBurst g);
                         g2 = g1\<lparr>reloadTimer := Some (due_after g1 1000, ReloadWindow)\<rparr>;
                         g3 = set_loadedAmmo p (js_add (loadedAmmo g2) reloadAmount) g2;
                         g4 = set_reserveAmmo p (js_sub (reserveAmmo g3) reloadAmount) g3
                     in sendEvent GripReload (sendEvent ReloadSFX g4))))"

text \<open>The \<open>reloadAmount\<close> that \<open>triggerReload\<close> computes (line 988).\<close>

definition reload_amount :: "props \<Rightarrow> Gun \<Rightarrow> int" where
  "reload_amount p g = min (js_sub (clipSize p) (loadedAmmo g)) (reserveAmmo g)"

text \<open>The handler of \<open>grantAmmo\<close> (lines 483-488).\<close>

definition onGrantAmmo :: "props \<Rightarrow> int \<Rightarrow> Gun \<Rightarrow> Gun" where
  "onGrantAmmo p amount g =
     (let g1 = set_reserveAmmo p (reserveAmmo g + amount) g
      in if loadedAmmo g1 < ammoPerFire p \<and> autoReload p then triggerReload p g1 else g1)"

text \<open>\<open>onInputAttack\<close> (lines 625-633) and \<open>onInputReload\<close> (lines 635-639).\<close>

definition onInputAttack :: "props \<Rightarrow> bool \<Rightarrow> Gun \<Rightarrow> Gun" where
  "onInputAttack p pressed g =
     (if \<not> pressed then resetAutoAttack (resetBurst g) else triggerAttack p g)"

definition onInputReload :: "props \<Rightarrow> bool \<Rightarrow> Gun \<Rightarrow> Gun" where
  "onInputReload p pressed g = (if \<not> pressed then g else triggerReload p g)"

section \<open>Timers\<close>

text \<open>
  The five timer fields. A pending timer fires when none is due earlier; firing moves
  the clock to the due time and runs the callback. An interval is armed again, one
  delay later, before its callback runs (the callback may clear it); a timeout's
  callback clears its own field.
\<close>

datatype timer =
  FireDelayTimer | AttackCooldownTimer | BulletBurstTimer | AutoAttackTimer | ReloadTimer

definition all_timers :: "timer list" where
  "all_timers =
     [FireDelayTimer, AttackCooldownTimer, BulletBurstTimer, AutoAttackTimer, ReloadTimer]"

fun due :: "Gun \<Rightarrow> timer \<Rightarrow> int option" where
  "due g FireDelayTimer = fireDelay g"
| "due g AttackCooldownTimer = attackCooldownTimer g"
| "due g BulletBurstTimer = bulletBurstTimer g"
| "due g AutoAttackTimer = autoAttackTimer g"
| "due g ReloadTimer = map_option fst (reloadTimer g)"

definition none_earlier :: "Gun \<Rightarrow> int \<Rightarrow> bool" where
  "none_earlier g d =
     list_all (\<lambda>t. case due g t of None \<Rightarrow> True | Some d' \<Rightarrow> d \<le> d') all_timers"

text \<open>The callback of the attack cooldown (lines 714-717).\<close>

definition onAttackCooldown :: "Gun \<Rightarrow> Gun" where
  "onAttackCooldown g = g\<lparr>attackCooldown := False, attackCooldownTimer := None\<rparr>"

text \<open>The callback of the burst interval (lines 751-759).\<close>

definition onBulletBurst :: "props \<Rightarrow> Gun \<Rightarrow> Gun" where
  "onBulletBurst p g =
     (if currentBurstCount g = 0 then resetBurst g
      else (let g1 = g\<lparr>attackCooldown := False\<rparr>;
                g2 = triggerAttack p g1
            in g2\<lparr>currentBurstCount := currentBurstCount g2 - 1\<rparr>))"

text \<open>The callback of the auto-attack interval (lines 771-774).\<close>

definition onAutoAttack :: "props \<Rightarrow> Gun \<Rightarrow> Gun" where
  "onAutoAttack p g = triggerAttack p (g\<lparr>attackCooldown := False\<rparr>)"

text \<open>The two callbacks of \<open>reloadTimer\<close> (lines 730-733 and 996-998).\<close>

fun onReloadTimer :: "props \<Rightarrow> reload_callback \<Rightarrow> Gun \<Rightarrow> Gun" where
  "onReloadTimer p ReloadDelay g = triggerReload p (g\<lparr>reloadTimer := None\<rparr>)"
| "onReloadTimer p ReloadWindow g = g\<lparr>reloadTimer := None\<rparr>"

fun callback :: "props \<Rightarrow> timer \<Rightarrow> Gun \<Rightarrow> Gun" where
  "callback p FireDelayTimer g = finishFiring p g"
| "callback p AttackCooldownTimer g = onAttackCooldown g"
| "callback p BulletBurstTimer g =
     onBulletBurst p
       (g\<lparr>bulletBurstTimer := Some (due_after g (bulletBurstDelay p))\<rparr>)"
| "callback p AutoAttackTimer g =
     onAutoAttack p (g\<lparr>autoAttackTimer := Some (due_after g (attackRate p))\<rparr>)"
| "callback p ReloadTimer g =
     (case reloadTimer g of None \<Rightarrow> g | Some (d, cb) \<Rightarrow> onReloadTimer p cb g)"

definition fire :: "props \<Rightarrow> timer \<Rightarrow> Gun \<Rightarrow> Gun option" where
  "fire p t g =
     (case due g t of
        None \<Rightarrow> None
      | Some d \<Rightarrow>
          if none_earlier g d then Some (callback p t (g\<lparr>clock := max (clock g) d\<rparr>))
          else None)"

text \<open>A schedule: the timers that fire, in order, with no input in between.\<close>

fun run_timers :: "props \<Rightarrow> timer list \<Rightarrow> Gun \<Rightarrow> Gun option" where
  "run_timers p [] g = Some g"
| "run_timers p (t # ts) g =
     (case fire p t g of None \<Rightarrow> None | Some g' \<Rightarrow> run_timers p ts g')"

text \<open>
  Everything that can happen to a held weapon: the attack input pressed
  (\<open>triggerAttack\<close>) or released, the reload input, an ammo grant, time passing, and a
  timer firing. A timer that is not pending, or not the next one due, does not fire.
\<close>

datatype input =
    TriggerAttack
  | ReleaseAttack
  | TriggerReload
  | GrantAmmo int
  | Elapse int
  | TimerFires timer

fun step :: "props \<Rightarrow> input \<Rightarrow> Gun \<Rightarrow> Gun" where
  "step p TriggerAttack g = onInputAttack p True g"
| "step p ReleaseAttack g = onInputAttack p False g"
| "step p TriggerReload g = onInputReload p True g"
| "step p (GrantAmmo amount) g = onGrantAmmo p amount g"
| "step p (Elapse d) g = g\<lparr>clock := clock g + max 0 d\<rparr>"
| "step p (TimerFires t) g = (case fire p t g of None \<Rightarrow> g | Some g' \<Rightarrow> g')"

fun run :: "props \<Rightarrow> input list \<Rightarrow> Gun \<Rightarrow> Gun" where
  "run p [] g = g"
| "run p (i # is) g = run p is (step p i g)"

text \<open>The shots fired, with their times, and the ammo deductions, in what was sent.\<close>

fun shot_time :: "out_event \<Rightarrow> int list" where
  "shot_time (Fired t) = [t]"
| "shot_time e = []"

definition shots :: "out_event list \<Rightarrow> int list" where
  "shots es = concat (map shot_time es)"

fun deduction :: "out_event \<Rightarrow> int list" where
  "deduction (LoadedAmmoChanged c q) = (if c < q then [q - c] else [])"
| "deduction e = []"

definition deductions :: "out_event list \<Rightarrow> int list" where
  "deductions es = concat (map deduction es)"

text \<open>What the weapon sent after the state \<open>g0\<close>.\<close>

definition sent_since :: "Gun \<Rightarrow> Gun \<Rightarrow> out_event list" where
  "sent_since g0 g = drop (length (emitted g0)) (emitted g)"

section \<open>The effect pool and the ownership hand-off\<close>

text \<open>
  \<open>fx.stop()\<close> on every gizmo of a list that still exists (lines 401-405, 418-422 and
  \<open>stopFX\<close>, lines 361-369).
\<close>

definition stop_gizmos :: "nat list \<Rightarrow> Gun \<Rightarrow> Gun" where
  "stop_gizmos fxs g = g\<lparr>playing := playing g - (set fxs - destroyed g)\<rparr>"

definition stopFX :: "FXList list \<Rightarrow> Gun \<Rightarrow> Gun" where
  "stopFX spawnedFX g = fold (\<lambda>spawned. stop_gizmos (fx spawned)) spawnedFX g"

text \<open>
  Reading \<open>this.impactFX[index].fx\<close>: an index outside the array yields \<open>undefined\<close>,
  whose property access throws.
\<close>

datatype error = TypeError

definition group_at :: "FXList list \<Rightarrow> int \<Rightarrow> error + nat list" where
  "group_at groups index =
     (if 0 \<le> index \<and> index < int (length groups) then Inr (fx (groups ! nat index))
      else Inl TypeError)"

text \<open>
  \<open>getImpactFX\<close> (lines 392-407) and \<open>getMissFX\<close> (lines 409-424). The remainder \<open>%\<close> of
  JavaScript takes the sign of the dividend: it is \<open>smod\<close>.
\<close>

definition getImpactFX :: "Gun \<Rightarrow> error + (nat list \<times> Gun)" where
  "getImpactFX g =
     (if length (impactFX g) = 0 then Inr ([], g)
      else (let index = nextImpactFXIdx g smod int (length (impactFX g));
                g1 = g\<lparr>nextImpactFXIdx := index + 1\<rparr>
            in case group_at (impactFX g1) index of
                 Inl e \<Rightarrow> Inl e
               | Inr fxs \<Rightarrow> Inr (fxs, stop_gizmos fxs g1)))"

definition getMissFX :: "Gun \<Rightarrow> error + (nat list \<times> Gun)" where
  "getMissFX g =
     (if length (missFX g) = 0 then Inr ([], g)
      else (let index = nextMissFXIdx g smod int (length (missFX g));
                g1 = g\<lparr>nextMissFXIdx := index + 1\<rparr>
            in case group_at (missFX g1) index of
                 Inl e \<Rightarrow> Inl e
               | Inr fxs \<Rightarrow> Inr (fxs, stop_gizmos fxs g1)))"

text \<open>\<open>transferOwnership\<close> (lines 464-478): the snapshot and the state left behind.\<close>

definition transferOwnership :: "props \<Rightarrow> nat \<Rightarrow> nat \<Rightarrow> Gun \<Rightarrow> GunState \<times> Gun" where
  "transferOwnership p oldPlayer newPlayer g =
     (let g1 = g\<lparr>propOwner := newPlayer\<rparr>;
          g2 = stopFX (impactFX g1) g1;
          g3 = stopFX (missFX g2) g2;
          g4 = (if assetSpawner p then sendEvent (SetOwningPlayer newPlayer) g3 else g3)
      in (\<lparr>loadedAmmo = loadedAmmo g4, reserveAmmo = reserveAmmo g4,
           impactFX = impactFX g4, missFX = missFX g4\<rparr>, g4))"

text \<open>\<open>receiveOwnership\<close> (lines 455-462); \<open>None\<close> is the state \<open>null\<close>.\<close>

definition receiveOwnership :: "props \<Rightarrow> GunState option \<Rightarrow> Gun \<Rightarrow> Gun" where
  "receiveOwnership p state g =
     (case state of
        None \<Rightarrow> g
      | Some st \<Rightarrow>
          (let g1 = set_loadedAmmo p (loadedAmmo st) g;
               g2 = set_reserveAmmo p (reserveAmmo st) g1
           in g2\<lparr>impactFX := impactFX st, missFX := missFX st\<rparr>))"

text \<open>The values the two setters store.\<close>

definition clamped_loaded :: "props \<Rightarrow> int \<Rightarrow> int" where
  "clamped_loaded p v = max 0 (min (max 0 (clipSize p)) v)"

definition clamped_reserve :: "props \<Rightarrow> Gun \<Rightarrow> int \<Rightarrow> int" where
  "clamped_reserve p g v = max 0 (min v (max 0 (maxAmmo p) - loadedAmmo g))"

text \<open>
  A weapon with the default configuration, an empty clip and 20 rounds in reserve; the
  default configuration with a cooldown of 100 ms and a clip of a given size; and a pool
  of two impact groups and one miss group.
\<close>

definition empty_clip_gun :: "bool \<Rightarrow> Gun" where
  "empty_clip_gun vr = set_reserveAmmo default_props 20 (new_gun vr 1)"

definition quick_props :: "int \<Rightarrow> props" where
  "quick_props clip = default_props\<lparr>attackRate := 100, clipSize := clip\<rparr>"

text \<open>
  A weapon whose clip holds \<open>2^54\<close> rounds, with \<open>2^53\<close> loaded and one in reserve.
\<close>

definition huge_props :: props where
  "huge_props =
     default_props\<lparr>clipSize := 2 ^ 54, maxAmmo := 2 ^ 55, startingAmmo := 2 ^ 53,
       startingReserveAmmo := 1\<rparr>"

definition huge_gun :: Gun where
  "huge_gun = preStart huge_props (new_gun True 1)"

definition pooled_gun :: Gun where
  "pooled_gun =
     (preStart default_props (new_gun True 1))
       \<lparr>impactFX := [\<lparr>fx = [11, 12]\<rparr>, \<lparr>fx = [13]\<rparr>], missFX := [\<lparr>fx = [21]\<rparr>],
        playing := {11, 13}\<rparr>"

section \<open>A burst\<close>









text \<open>
  The default weapon made to fire bursts of three, with auto-attack on or off, and a
  new weapon after \<open>preStart\<close>: 10 rounds loaded, 20 in reserve.
\<close>

definition burst_props :: "bool \<Rightarrow> props" where
  "burst_props auto = default_props\<lparr>bulletBurstPerFire := 3, autoAttack := auto\<rparr>"

definition loaded_gun :: "bool \<Rightarrow> Gun" where
  "loaded_gun vr = preStart default_props (new_gun vr 1)"


section \<open>Hitscan shown as a projectile\<close>

text \<open>
  The branch of \<open>fireWithRaycast\<close> taken when a projectile launcher is configured next
  to the raycaster (lines 808-837). Positions and angles are real numbers; rounding and
  the non-finite values of the JavaScript number type are not modelled, except that a
  division by zero yields no finite number (\<open>None\<close>). \<open>Vec3\<close>, its difference, its
  magnitude and \<open>equalsApprox\<close> are the platform's (\<open>horizon/core\<close>), modelled as the
  Euclidean ones, \<open>equalsApprox\<close> comparing component by component.
\<close>

record Vec3 =
  vec_x :: real
  vec_y :: real
  vec_z :: real

definition vec_zero :: Vec3 where
  "vec_zero = \<lparr>vec_x = 0, vec_y = 0, vec_z = 0\<rparr>"

definition vec_sub :: "Vec3 \<Rightarrow> Vec3 \<Rightarrow> Vec3" where
  "vec_sub a b = \<lparr>vec_x = vec_x a - vec_x b, vec_y = vec_y a - vec_y b,
                 vec_z = vec_z a - vec_z b\<rparr>"

definition magnitude :: "Vec3 \<Rightarrow> real" where
  "magnitude v = sqrt (vec_x v * vec_x v + vec_y v * vec_y v + vec_z v * vec_z v)"

definition equalsApprox :: "Vec3 \<Rightarrow> Vec3 \<Rightarrow> real \<Rightarrow> bool" where
  "equalsApprox a b epsilon =
     (\<bar>vec_x a - vec_x b\<bar> \<le> epsilon \<and> \<bar>vec_y a - vec_y b\<bar> \<le> epsilon \<and>
      \<bar>vec_z a - vec_z b\<bar> \<le> epsilon)"

definition degreesToRadians :: "real \<Rightarrow> real" where
  "degreesToRadians d = d * pi / 180"

definition js_divide :: "real \<Rightarrow> real \<Rightarrow> real option" where
  "js_divide a b = (if b = 0 then None else Some (a / b))"

text \<open>\<open>GunRaycastHit\<close> (lines 23-28); \<open>hit\<close> is the optional \<open>RaycastHit\<close>, kept by its hit point.\<close>

record GunRaycastHit =
  hitPos :: Vec3
  sprayAngle :: Vec3
  fireSource :: Vec3
  hit :: "Vec3 option"

text \<open>
  What the branch asks of the launcher: the local rotation it sets first, if any, as
  the angles about the launcher's up and right axes; the timeout before \<open>launch\<close>, if
  any; and the options of \<open>launch\<close>.
\<close>

record launch_request =
  rotation :: "(real \<times> real) option"
  timeout_ms :: "int option"
  speed :: real
  duration :: "real option"

definition fireWithRaycast_launch ::
    "real \<Rightarrow> Vec3 \<Rightarrow> bool \<Rightarrow> GunRaycastHit \<Rightarrow> launch_request" where
  "fireWithRaycast_launch projectileSpeed launcherPosition deviceVR gunHit =
     (let distance0 = magnitude (vec_sub (hitPos gunHit) launcherPosition);
          distance = (if hit gunHit \<noteq> None then distance0 + 4 else distance0);
          duration = js_divide distance projectileSpeed;
          xRadians = (if deviceVR then degreesToRadians (vec_x (sprayAngle gunHit))
                      else degreesToRadians (- vec_x (sprayAngle gunHit)));
          yRadians = (if deviceVR then degreesToRadians (vec_y (sprayAngle gunHit))
                      else degreesToRadians (- vec_y (sprayAngle gunHit)))
      in if equalsApprox (sprayAngle gunHit) vec_zero (1 / 1000)
         then \<lparr>rotation = None, timeout_ms = None, speed = projectileSpeed,
               duration = duration\<rparr>
         else \<lparr>rotation = Some (xRadians, yRadians), timeout_ms = Some 1,
               speed = projectileSpeed, duration = duration\<rparr>)"

text \<open>Two raycast outcomes: a hit 6 m ahead with no spray, and a miss 5 m away with spray.\<close>

definition straight_hit :: GunRaycastHit where
  "straight_hit =
     \<lparr>hitPos = \<lparr>vec_x = 6, vec_y = 0, vec_z = 0\<rparr>, sprayAngle = vec_zero,
      fireSource = vec_zero, hit = Some \<lparr>vec_x = 6, vec_y = 0, vec_z = 0\<rparr>\<rparr>"

definition sprayed_miss :: GunRaycastHit where
  "sprayed_miss =
     \<lparr>hitPos = \<lparr>vec_x = 0, vec_y = 3, vec_z = 4\<rparr>,
      sprayAngle = \<lparr>vec_x = 2, vec_y = - 1, vec_z = 0\<rparr>,
      fireSource = vec_zero, hit = None\<rparr>"

section \<open>Clamping and change notifications\<close>

lemma clamp_other_order: "lo \<le> hi \<Longrightarrow> clamp v lo hi = min hi (max v lo)"
  by (simp add: clamp_def)

lemma loadedAmmo_set_loadedAmmo:
  "loadedAmmo (set_loadedAmmo p v g) = max 0 (min (max 0 (clipSize p)) v)"
  by (simp add: set_loadedAmmo_def sendEvent_def Let_def)

lemma reserveAmmo_set_reserveAmmo:
  "reserveAmmo (set_reserveAmmo p v g) = max 0 (min v (max 0 (maxAmmo p) - loadedAmmo g))"
  by (simp add: set_reserveAmmo_def sendEvent_def Let_def)

lemma reserveAmmo_set_loadedAmmo [simp]:
  "reserveAmmo (set_loadedAmmo p v g) = reserveAmmo g"
  by (simp add: set_loadedAmmo_def sendEvent_def Let_def)

lemma loadedAmmo_set_reserveAmmo [simp]:
  "loadedAmmo (set_reserveAmmo p v g) = loadedAmmo g"
  by (simp add: set_reserveAmmo_def sendEvent_def Let_def)



lemma set_loadedAmmo_eq:
  "set_loadedAmmo p v g =
     (if clamped_loaded p v = loadedAmmo g then g
      else g\<lparr>loadedAmmo := clamped_loaded p v,
             emitted := emitted g @ [LoadedAmmoChanged (clamped_loaded p v) (loadedAmmo g)]\<rparr>)"
  by (simp add: set_loadedAmmo_def sendEvent_def Let_def clamped_loaded_def)

lemma set_reserveAmmo_eq:
  "set_reserveAmmo p v g =
     (if clamped_reserve p g v = reserveAmmo g then g
      else g\<lparr>reserveAmmo := clamped_reserve p g v,
             emitted := emitted g @ [ReserveAmmoChanged (clamped_reserve p g v) (reserveAmmo g)]\<rparr>)"
  by (simp add: set_reserveAmmo_def sendEvent_def Let_def clamped_reserve_def)

lemma set_loadedAmmo_twice:
  "set_loadedAmmo p v (set_loadedAmmo p v g) = set_loadedAmmo p v g"
  by (simp add: set_loadedAmmo_eq)

text \<open>
  C9, as amended. For every value \<open>x\<close>, an assignment to \<open>loadedAmmo\<close> (or to
  \<open>reserveAmmo\<close>) whose clamped result equals the stored value sends no notification.
  Assigning \<open>x\<close> to \<open>loadedAmmo\<close> twice in a row sends nothing the second time; the two
  assignments together send one \<open>loadedAmmoChanged\<close> when the clamped \<open>x\<close> differs from
  the value stored before the first assignment, and none when it does not.
\<close>

theorem setter_notifications:
  "(loadedAmmo (set_loadedAmmo p x g) = loadedAmmo g \<longrightarrow>
      emitted (set_loadedAmmo p x g) = emitted g) \<and>
   (reserveAmmo (set_reserveAmmo p x g) = reserveAmmo g \<longrightarrow>
      emitted (set_reserveAmmo p x g) = emitted g) \<and>
   emitted (set_loadedAmmo p x (set_loadedAmmo p x g)) = emitted (set_loadedAmmo p x g) \<and>
   loadedAmmoChanged_count (set_loadedAmmo p x (set_loadedAmmo p x g)) =
     loadedAmmoChanged_count g +
       (if loadedAmmo (set_loadedAmmo p x g) = loadedAmmo g then 0 else 1)"
  by (simp add: set_loadedAmmo_twice loadedAmmoChanged_count_def)
     (simp add: set_loadedAmmo_eq set_reserveAmmo_eq)

theorem setter_notifications_witness:
  "loadedAmmo (set_loadedAmmo default_props 0 (new_gun False 1)) = loadedAmmo (new_gun False 1) \<and>
   emitted (set_loadedAmmo default_props 0 (new_gun False 1)) = [] \<and>
   reserveAmmo (set_reserveAmmo default_props 0 (new_gun False 1)) = reserveAmmo (new_gun False 1) \<and>
   emitted (set_reserveAmmo default_props 0 (new_gun False 1)) = [] \<and>
   loadedAmmo (set_loadedAmmo default_props 7 (new_gun False 1)) \<noteq> loadedAmmo (new_gun False 1) \<and>
   loadedAmmoChanged_count
     (set_loadedAmmo default_props 7 (set_loadedAmmo default_props 7 (new_gun False 1))) = 1"
  using setter_notifications [of default_props 0 "new_gun False 1"]
    setter_notifications [of default_props 7 "new_gun False 1"]
  by (simp add: set_loadedAmmo_def set_reserveAmmo_def sendEvent_def Let_def
      default_props_def new_gun_def loadedAmmoChanged_count_def)

text \<open>
  C9 as stated fails on a new weapon (\<open>loadedAmmo = 0\<close>) at \<open>x = 0\<close>: the two assignments
  send no \<open>loadedAmmoChanged\<close> at all, not exactly one.
\<close>

theorem setLoaded_twice_counterexample:
  "loadedAmmoChanged_count
     (set_loadedAmmo default_props 0 (set_loadedAmmo default_props 0 (new_gun False 1))) -
   loadedAmmoChanged_count (new_gun False 1) \<noteq> 1"
  by (simp add: set_loadedAmmo_def sendEvent_def Let_def default_props_def new_gun_def
      loadedAmmoChanged_count_def)

section \<open>Ammunition never goes negative\<close>

lemma loadedAmmo_finishFiring [simp]: "loadedAmmo (finishFiring p g) = loadedAmmo g"
  by (simp add: finishFiring_def Let_def sendEvent_def resetBurst_def resetAutoAttack_def
      resetReload_def triggerBurst_def triggerAutoAttack_def)

lemma loadedAmmo_triggerAttack:
  "loadedAmmo (triggerAttack p g) =
     (if canAttack p g \<and> fireDelay g = None \<and> 0 < ammoPerFire p
      then clamped_loaded p (loadedAmmo g - ammoPerFire p) else loadedAmmo g)"
  by (simp add: triggerAttack_def Let_def sendEvent_def resetBurst_def resetAutoAttack_def
      loadedAmmo_set_loadedAmmo clamped_loaded_def)

lemma loadedAmmo_triggerReload_nonneg:
  "0 \<le> loadedAmmo g \<Longrightarrow> 0 \<le> loadedAmmo (triggerReload p g)"
  by (simp add: triggerReload_def Let_def sendEvent_def loadedAmmo_set_loadedAmmo)

lemma loadedAmmo_triggerAttack_nonneg:
  "0 \<le> loadedAmmo g \<Longrightarrow> 0 \<le> loadedAmmo (triggerAttack p g)"
  by (simp add: loadedAmmo_triggerAttack clamped_loaded_def)

lemma loadedAmmo_onReloadTimer_nonneg:
  "0 \<le> loadedAmmo g \<Longrightarrow> 0 \<le> loadedAmmo (onReloadTimer p cb g)"
  by (cases cb) (simp_all add: loadedAmmo_triggerReload_nonneg)

lemma loadedAmmo_callback_nonneg:
  "0 \<le> loadedAmmo g \<Longrightarrow> 0 \<le> loadedAmmo (callback p t g)"
  by (cases t)
     (auto simp add: onAttackCooldown_def onBulletBurst_def onAutoAttack_def resetBurst_def
        loadedAmmo_triggerAttack_nonneg loadedAmmo_onReloadTimer_nonneg Let_def
        split: option.splits)

lemma loadedAmmo_step_nonneg:
  "0 \<le> loadedAmmo g \<Longrightarrow> 0 \<le> loadedAmmo (step p i g)"
  by (cases i)
     (auto simp add: onInputAttack_def onInputReload_def onGrantAmmo_def fire_def Let_def
        resetBurst_def resetAutoAttack_def
        loadedAmmo_triggerAttack_nonneg loadedAmmo_triggerReload_nonneg
        loadedAmmo_callback_nonneg split: option.splits)

lemma loadedAmmo_run_nonneg:
  "0 \<le> loadedAmmo g \<Longrightarrow> 0 \<le> loadedAmmo (run p is g)"
  by (induction "is" arbitrary: g) (simp_all add: loadedAmmo_step_nonneg)

lemma rejected_attack:
  "0 \<le> loadedAmmo g \<Longrightarrow> loadedAmmo g < ammoPerFire p \<Longrightarrow>
     \<not> canAttack p g \<and> loadedAmmo (triggerAttack p g) = loadedAmmo g \<and>
     deductions (sent_since g (triggerAttack p g)) = []"
  by (simp add: canAttack_def triggerAttack_def Let_def sendEvent_def resetBurst_def
      resetAutoAttack_def sent_since_def deductions_def)

text \<open>
  C1. From any state with \<open>loadedAmmo \<ge> 0\<close>, after every finite sequence of inputs
  (\<open>triggerAttack\<close> calls, with whatever else can happen to the weapon in between: timers
  firing, among them the burst and auto-attack intervals that call \<open>triggerAttack\<close>
  themselves, reloads, grants, releases) \<open>loadedAmmo\<close> is still \<open>\<ge> 0\<close>; and at every
  such point a \<open>triggerAttack\<close> whose \<open>ammoPerFire\<close> exceeds \<open>loadedAmmo\<close> is rejected by
  \<open>canAttack\<close> and deducts nothing.
\<close>

theorem no_negative_ammo:
  assumes "0 \<le> loadedAmmo g"
  shows "0 \<le> loadedAmmo (run p is g) \<and>
         (loadedAmmo (run p is g) < ammoPerFire p \<longrightarrow>
            \<not> canAttack p (run p is g) \<and>
            loadedAmmo (triggerAttack p (run p is g)) = loadedAmmo (run p is g) \<and>
            deductions (sent_since (run p is g) (triggerAttack p (run p is g))) = [])"
  using loadedAmmo_run_nonneg [OF assms, of p "is"] rejected_attack [of "run p is g" p]
  by blast

theorem no_negative_ammo_witness:
  "0 \<le> loadedAmmo (preStart default_props (new_gun True 1)) \<and>
   loadedAmmo (run (default_props\<lparr>ammoPerFire := 6\<rparr>)
     [TriggerAttack, TimerFires AttackCooldownTimer]
     (preStart default_props (new_gun True 1))) = 4 \<and>
   loadedAmmo (run (default_props\<lparr>ammoPerFire := 6\<rparr>)
     [TriggerAttack, TimerFires AttackCooldownTimer, TriggerAttack]
     (preStart default_props (new_gun True 1))) = 4"
  using no_negative_ammo [of "preStart default_props (new_gun True 1)"
      "default_props\<lparr>ammoPerFire := 6\<rparr>"
      "[TriggerAttack, TimerFires AttackCooldownTimer]"]
  by (simp add: preStart_def default_props_def new_gun_def set_loadedAmmo_def
      set_reserveAmmo_def sendEvent_def Let_def onInputAttack_def triggerAttack_def
      canAttack_def finishFiring_def resetBurst_def resetAutoAttack_def resetReload_def
      triggerBurst_def triggerAutoAttack_def due_after_def fire_def none_earlier_def
      all_timers_def onAttackCooldown_def)

section \<open>Unlimited ammo\<close>

text \<open>
  C5. When \<open>ammoPerFire \<le> 0\<close> (\<open>hasUnlimitedAmmo\<close>), \<open>canAttack\<close> depends on the attack
  cooldown alone, whatever \<open>loadedAmmo\<close> and \<open>reserveAmmo\<close> are, so no attack is blocked
  by ammo; \<open>triggerAttack\<close> leaves \<open>loadedAmmo\<close> unchanged; and \<open>triggerReload\<close> changes
  nothing.
\<close>

theorem unlimited_ammo:
  assumes "ammoPerFire p \<le> 0"
  shows "hasUnlimitedAmmo p \<and>
         canAttack p g = (\<not> attackCooldown g) \<and>
         loadedAmmo (triggerAttack p g) = loadedAmmo g \<and>
         triggerReload p g = g"
  using assms
  by (simp add: hasUnlimitedAmmo_def canAttack_def loadedAmmo_triggerAttack
      triggerReload_def)

theorem unlimited_ammo_witness:
  "ammoPerFire (default_props\<lparr>ammoPerFire := 0\<rparr>) \<le> 0 \<and>
   canAttack (default_props\<lparr>ammoPerFire := 0\<rparr>) (new_gun True 1) \<and>
   loadedAmmo (triggerAttack (default_props\<lparr>ammoPerFire := 0\<rparr>) (new_gun True 1)) = 0 \<and>
   triggerReload (default_props\<lparr>ammoPerFire := 0\<rparr>) (new_gun True 1) = new_gun True 1"
  using unlimited_ammo [of "default_props\<lparr>ammoPerFire := 0\<rparr>" "new_gun True 1"]
  by (simp add: default_props_def new_gun_def)

section \<open>Reload\<close>

lemma js_round_exact: "\<bar>k\<bar> \<le> 2 ^ 53 \<Longrightarrow> js_round k = k"
proof (cases "\<bar>k\<bar> < 2 ^ 53")
  case True
  then have "bitlen \<bar>k\<bar> \<le> 53"
    by (simp add: bitlen_le_iff_power)
  then show ?thesis by (simp add: js_round_def)
next
  case False
  moreover assume "\<bar>k\<bar> \<le> 2 ^ 53"
  ultimately have m: "\<bar>k\<bar> = 2 ^ 53" by simp
  have "bitlen \<bar>k\<bar> \<le> 54"
    using m by (simp add: bitlen_le_iff_power)
  moreover have "\<not> bitlen \<bar>k\<bar> \<le> 53"
    using m by (simp add: bitlen_le_iff_power)
  ultimately have b: "bitlen \<bar>k\<bar> = 54"
    by arith
  have "sgn k * \<bar>k\<bar> = k"
    by (simp add: sgn_if)
  then show ?thesis
    unfolding js_round_def b Let_def using m by simp
qed

text \<open>
  Above \<open>2^53\<close> the odd integers are not doubles: \<open>2^53 + 1\<close> is rounded down and
  \<open>2^53 + 3\<close> up, to the even neighbour in 53 bits; \<open>2^54 - 1\<close> is rounded up to \<open>2^54\<close>.
\<close>

lemma js_round_examples:
  "js_round (2 ^ 53 + 1) = 2 ^ 53" "js_round (2 ^ 53 + 2) = 2 ^ 53 + 2"
  "js_round (2 ^ 53 + 3) = 2 ^ 53 + 4" "js_round (2 ^ 54 - 1) = 2 ^ 54"
  "js_round (2 ^ 54 + 2) = 2 ^ 54" "js_round (2 ^ 54 + 6) = 2 ^ 54 + 8"
  "js_round (- (2 ^ 53) - 1) = - (2 ^ 53)" "js_add (2 ^ 53) 1 = 2 ^ 53"
  by code_simp+

lemma js_round_nonpos: "k \<le> 0 \<Longrightarrow> js_round k \<le> 0"
  unfolding js_round_def Let_def
  by (simp add: mult_nonpos_nonneg sgn_if pos_imp_zdiv_nonneg_iff)

lemma js_sub_exact: "\<bar>a - b\<bar> \<le> 2 ^ 53 \<Longrightarrow> js_sub a b = a - b"
  by (simp add: js_sub_def js_round_exact)

lemma js_add_exact: "\<bar>a + b\<bar> \<le> 2 ^ 53 \<Longrightarrow> js_add a b = a + b"
  by (simp add: js_add_def js_round_exact)

text \<open>
  With a clip of at most \<open>2^53\<close> rounds, a positive reload amount is the exact
  \<open>min(clipSize - loadedAmmo, reserveAmmo)\<close>.
\<close>

lemma reload_amount_exact:
  assumes "0 \<le> loadedAmmo g" and "clipSize p \<le> 2 ^ 53" and "0 < reload_amount p g"
  shows "reload_amount p g = min (clipSize p - loadedAmmo g) (reserveAmmo g)"
    and "loadedAmmo g < clipSize p"
proof -
  have "0 < js_sub (clipSize p) (loadedAmmo g)"
    using assms(3) by (simp add: reload_amount_def)
  then have "\<not> clipSize p - loadedAmmo g \<le> 0"
    using js_round_nonpos [of "clipSize p - loadedAmmo g"] by (auto simp add: js_sub_def)
  then show less: "loadedAmmo g < clipSize p" by simp
  then have "\<bar>clipSize p - loadedAmmo g\<bar> \<le> 2 ^ 53"
    using assms(1,2) by simp
  then show "reload_amount p g = min (clipSize p - loadedAmmo g) (reserveAmmo g)"
    by (simp add: reload_amount_def js_sub_exact)
qed

lemma reload_amount_invariants:
  assumes "ammo_invariants p g" and "clipSize p \<le> 2 ^ 53"
  shows "reload_amount p g = min (clipSize p - loadedAmmo g) (reserveAmmo g)"
proof -
  have "\<bar>clipSize p - loadedAmmo g\<bar> \<le> 2 ^ 53"
    using assms unfolding ammo_invariants_def by simp
  then show ?thesis by (simp add: reload_amount_def js_sub_exact)
qed

lemma triggerReload_success:
  assumes "reloadTimer g = None" and "0 < ammoPerFire p"
    and "reload_amount p g \<noteq> 0" and "ammoPerFire p \<le> reload_amount p g"
  shows "triggerReload p g =
     sendEvent GripReload (sendEvent ReloadSFX
       (set_reserveAmmo p (js_sub (reserveAmmo g) (reload_amount p g))
          (set_loadedAmmo p (js_add (loadedAmmo g) (reload_amount p g))
             (g\<lparr>currentBurstCount := 0, bulletBurstTimer := None, autoAttackTimer := None,
                reloadTimer := Some (clock g + 1000, ReloadWindow)\<rparr>))))"
proof -
  have "\<not> reload_amount p g < ammoPerFire p"
    using assms(4) by arith
  with assms(1,2,3) show ?thesis
    unfolding triggerReload_def hasUnlimitedAmmo_def Let_def reload_amount_def [symmetric]
    by (simp add: resetBurst_def resetAutoAttack_def due_after_def)
qed

lemma triggerReload_noop:
  "reload_amount p g = 0 \<or> reload_amount p g < ammoPerFire p \<Longrightarrow> triggerReload p g = g"
  unfolding triggerReload_def Let_def reload_amount_def [symmetric] by auto


lemma triggerReload_transfer:
  assumes "reloadTimer g = None" and "0 < ammoPerFire p"
    and "0 \<le> loadedAmmo g" and "clipSize p \<le> 2 ^ 53" and "maxAmmo p \<le> 2 ^ 53"
    and "reserveAmmo g \<le> max 0 (maxAmmo p) - loadedAmmo g"
    and "reload_amount p g \<noteq> 0" and "ammoPerFire p \<le> reload_amount p g"
  shows "loadedAmmo (triggerReload p g) = loadedAmmo g + reload_amount p g \<and>
         reserveAmmo (triggerReload p g) = reserveAmmo g - reload_amount p g"
proof -
  define t where "t = reload_amount p g"
  have pos: "0 < t"
    using assms(2,8) by (simp add: t_def)
  have t: "t \<le> clipSize p - loadedAmmo g" "t \<le> reserveAmmo g"
    using reload_amount_exact(1) [OF assms(3,4)] pos by (simp_all add: t_def)
  have "\<bar>loadedAmmo g + t\<bar> \<le> 2 ^ 53"
    using pos t assms(3,4) by simp
  then have ea: "js_add (loadedAmmo g) t = loadedAmmo g + t"
    by (rule js_add_exact)
  have "\<bar>reserveAmmo g - t\<bar> \<le> 2 ^ 53"
    using pos t assms(3,5,6) by simp
  then have es: "js_sub (reserveAmmo g) t = reserveAmmo g - t"
    by (rule js_sub_exact)
  have l: "max 0 (min (max 0 (clipSize p)) (loadedAmmo g + t)) = loadedAmmo g + t"
    using pos t assms(3) by simp
  have r: "max 0 (min (reserveAmmo g - t) (max 0 (maxAmmo p) - (loadedAmmo g + t))) =
             reserveAmmo g - t"
    using t assms(6) by simp
  show ?thesis
    unfolding triggerReload_success [OF assms(1,2,7,8)] t_def [symmetric]
    by (simp add: sendEvent_def reserveAmmo_set_reserveAmmo loadedAmmo_set_loadedAmmo
        ea es l r)
qed

text \<open>
  C4, as amended. On a weapon whose \<open>clipSize\<close> and \<open>maxAmmo\<close> are at most \<open>2^53\<close>, under
  the ammo invariants, \<open>triggerReload\<close>, with no reload timer pending and ammo not
  unlimited, computes \<open>transfer = min(clipSize - loadedAmmo, reserveAmmo)\<close>. It changes
  nothing when \<open>transfer = 0\<close> or \<open>transfer < ammoPerFire\<close>; otherwise it adds \<open>transfer\<close>
  to \<open>loadedAmmo\<close> and takes it from \<open>reserveAmmo\<close>. In every case
  \<open>loadedAmmo + reserveAmmo\<close> is unchanged.
\<close>

theorem reload_conserves:
  assumes "reloadTimer g = None" and "\<not> hasUnlimitedAmmo p" and "ammo_invariants p g"
    and "clipSize p \<le> 2 ^ 53" and "maxAmmo p \<le> 2 ^ 53"
  shows "let transfer = min (clipSize p - loadedAmmo g) (reserveAmmo g)
         in (transfer = 0 \<or> transfer < ammoPerFire p \<longrightarrow> triggerReload p g = g) \<and>
            (\<not> (transfer = 0 \<or> transfer < ammoPerFire p) \<longrightarrow>
               loadedAmmo (triggerReload p g) = loadedAmmo g + transfer \<and>
               reserveAmmo (triggerReload p g) = reserveAmmo g - transfer) \<and>
            loadedAmmo (triggerReload p g) + reserveAmmo (triggerReload p g) =
              loadedAmmo g + reserveAmmo g"
proof -
  let ?t = "min (clipSize p - loadedAmmo g) (reserveAmmo g)"
  have amount: "reload_amount p g = ?t"
    by (rule reload_amount_invariants [OF assms(3,4)])
  have noop: "?t = 0 \<or> ?t < ammoPerFire p \<Longrightarrow> triggerReload p g = g"
    using triggerReload_noop [of p g] unfolding amount by simp
  have move: "loadedAmmo (triggerReload p g) = loadedAmmo g + ?t \<and>
              reserveAmmo (triggerReload p g) = reserveAmmo g - ?t"
    if "\<not> (?t = 0 \<or> ?t < ammoPerFire p)"
  proof -
    have l: "0 \<le> loadedAmmo g"
      using assms(3) unfolding ammo_invariants_def by arith
    have r: "reserveAmmo g \<le> max 0 (maxAmmo p) - loadedAmmo g"
      using assms(3) unfolding ammo_invariants_def by arith
    have a: "0 < ammoPerFire p"
      using assms(2) by (simp add: hasUnlimitedAmmo_def)
    have t0: "reload_amount p g \<noteq> 0" and t1: "ammoPerFire p \<le> reload_amount p g"
      unfolding amount using that by arith+
    show ?thesis
      using triggerReload_transfer [OF assms(1) a l assms(4,5) r t0 t1]
      unfolding amount .
  qed
  show ?thesis
    unfolding Let_def using noop move by (cases "?t = 0 \<or> ?t < ammoPerFire p") auto
qed

theorem reload_conserves_witness:
  "reloadTimer (set_reserveAmmo default_props 20 (new_gun True 1)) = None \<and>
   \<not> hasUnlimitedAmmo default_props \<and>
   ammo_invariants default_props (set_reserveAmmo default_props 20 (new_gun True 1)) \<and>
   clipSize default_props \<le> 2 ^ 53 \<and> maxAmmo default_props \<le> 2 ^ 53 \<and>
   loadedAmmo (triggerReload default_props
     (set_reserveAmmo default_props 20 (new_gun True 1))) = 10 \<and>
   reserveAmmo (triggerReload default_props
     (set_reserveAmmo default_props 20 (new_gun True 1))) = 10"
  using reload_conserves [of "set_reserveAmmo default_props 20 (new_gun True 1)" default_props]
  by (simp add: Let_def hasUnlimitedAmmo_def ammo_invariants_def set_reserveAmmo_eq
      clamped_reserve_def default_props_def new_gun_def)

text \<open>
  C4 as stated fails beyond \<open>2^53\<close>: with a clip of \<open>2^54\<close>, \<open>2^53\<close> rounds loaded and one
  in reserve, the invariants hold and the reload moves one round; the sum \<open>2^53 + 1\<close> is
  rounded to \<open>2^53\<close>, so \<open>loadedAmmo\<close> stays \<open>2^53\<close> while \<open>reserveAmmo\<close> drops to 0, and
  a round is lost.
\<close>

theorem reload_rounding_counterexample:
  "reloadTimer huge_gun = None \<and> \<not> hasUnlimitedAmmo huge_props \<and>
   ammo_invariants huge_props huge_gun \<and>
   loadedAmmo huge_gun = 2 ^ 53 \<and> reserveAmmo huge_gun = 1 \<and>
   loadedAmmo (triggerReload huge_props huge_gun) = 2 ^ 53 \<and>
   reserveAmmo (triggerReload huge_props huge_gun) = 0"
  by code_simp

section \<open>Attacks in the reload window\<close>

lemma finishFiring_fields [simp]:
  "emitted (finishFiring p g) = emitted g @ [Fired (clock g)]"
  "reserveAmmo (finishFiring p g) = reserveAmmo g"
  "clock (finishFiring p g) = clock g"
  "attackCooldown (finishFiring p g) = attackCooldown g"
  "fireDelay (finishFiring p g) = None"
  "ownerVR (finishFiring p g) = ownerVR g"
  by (simp_all add: finishFiring_def Let_def sendEvent_def resetBurst_def resetAutoAttack_def
      resetReload_def triggerBurst_def triggerAutoAttack_def)















text \<open>
  Later in the window the ammo check can fail like at any other time: with a clip of
  one round, the reload credits one round, the first attack takes it, and once the
  cooldown is over, at 100 ms, the window is still open and the next attack is rejected
  for ammo, with the out-of-ammo cue.
\<close>

lemma attack_in_reload_window_out_of_ammo:
  "reloadTimer (run (quick_props 1) [TriggerAttack, TimerFires AttackCooldownTimer]
     (triggerReload (quick_props 1) (empty_clip_gun True))) = Some (1000, ReloadWindow) \<and>
   \<not> attackCooldown (run (quick_props 1) [TriggerAttack, TimerFires AttackCooldownTimer]
     (triggerReload (quick_props 1) (empty_clip_gun True))) \<and>
   \<not> canAttack (quick_props 1)
     (run (quick_props 1) [TriggerAttack, TimerFires AttackCooldownTimer]
        (triggerReload (quick_props 1) (empty_clip_gun True))) \<and>
   sent_since
     (run (quick_props 1) [TriggerAttack, TimerFires AttackCooldownTimer]
        (triggerReload (quick_props 1) (empty_clip_gun True)))
     (triggerAttack (quick_props 1)
        (run (quick_props 1) [TriggerAttack, TimerFires AttackCooldownTimer]
           (triggerReload (quick_props 1) (empty_clip_gun True)))) = [OutOfAmmoSFX]"
  by code_simp


section \<open>Ownership hand-off and the effect pool\<close>

lemma stop_gizmos_fields [simp]:
  "loadedAmmo (stop_gizmos fxs g) = loadedAmmo g"
  "reserveAmmo (stop_gizmos fxs g) = reserveAmmo g"
  "impactFX (stop_gizmos fxs g) = impactFX g"
  "missFX (stop_gizmos fxs g) = missFX g"
  "nextImpactFXIdx (stop_gizmos fxs g) = nextImpactFXIdx g"
  "nextMissFXIdx (stop_gizmos fxs g) = nextMissFXIdx g"
  "emitted (stop_gizmos fxs g) = emitted g"
  by (simp_all add: stop_gizmos_def)

lemma stopFX_fields [simp]:
  "loadedAmmo (stopFX groups g) = loadedAmmo g"
  "reserveAmmo (stopFX groups g) = reserveAmmo g"
  "impactFX (stopFX groups g) = impactFX g"
  "missFX (stopFX groups g) = missFX g"
  "emitted (stopFX groups g) = emitted g"
  unfolding stopFX_def by (induction groups arbitrary: g; simp)+

lemma transferOwnership_snapshot:
  "fst (transferOwnership p oldPlayer newPlayer g) =
     \<lparr>loadedAmmo = loadedAmmo g, reserveAmmo = reserveAmmo g,
      impactFX = impactFX g, missFX = missFX g\<rparr>"
  by (simp add: transferOwnership_def Let_def sendEvent_def)

lemma receiveOwnership_fields:
  "loadedAmmo (receiveOwnership p (Some st) r) = clamped_loaded p (loadedAmmo st)"
  "reserveAmmo (receiveOwnership p (Some st) r) =
     max 0 (min (reserveAmmo st) (max 0 (maxAmmo p) - clamped_loaded p (loadedAmmo st)))"
  "impactFX (receiveOwnership p (Some st) r) = impactFX st"
  "missFX (receiveOwnership p (Some st) r) = missFX st"
  by (simp_all add: receiveOwnership_def Let_def loadedAmmo_set_loadedAmmo
      reserveAmmo_set_reserveAmmo clamped_loaded_def)

text \<open>
  C3. For every weapon state that satisfies the ammo invariants, \<open>transferOwnership\<close>
  followed by \<open>receiveOwnership\<close> of the snapshot it returned, on any receiving instance
  \<open>r\<close> of the same weapon, reproduces \<open>loadedAmmo\<close>, \<open>reserveAmmo\<close> and the impact and
  miss effect groups.
\<close>

theorem ownership_round_trip:
  assumes "ammo_invariants p g"
  shows "loadedAmmo (receiveOwnership p
           (Some (fst (transferOwnership p oldPlayer newPlayer g))) r) = loadedAmmo g \<and>
         reserveAmmo (receiveOwnership p
           (Some (fst (transferOwnership p oldPlayer newPlayer g))) r) = reserveAmmo g \<and>
         impactFX (receiveOwnership p
           (Some (fst (transferOwnership p oldPlayer newPlayer g))) r) = impactFX g \<and>
         missFX (receiveOwnership p
           (Some (fst (transferOwnership p oldPlayer newPlayer g))) r) = missFX g"
proof -
  have l: "clamped_loaded p (loadedAmmo g) = loadedAmmo g"
    using assms unfolding ammo_invariants_def clamped_loaded_def by arith
  have r: "max 0 (min (reserveAmmo g) (max 0 (maxAmmo p) - loadedAmmo g)) = reserveAmmo g"
    using assms unfolding ammo_invariants_def by arith
  show ?thesis
    by (simp add: transferOwnership_snapshot receiveOwnership_fields l r)
qed

lemma pooled_gun_fields:
  "loadedAmmo pooled_gun = 10" "reserveAmmo pooled_gun = 20"
  "impactFX pooled_gun = [\<lparr>fx = [11, 12]\<rparr>, \<lparr>fx = [13]\<rparr>]"
  "missFX pooled_gun = [\<lparr>fx = [21]\<rparr>]"
  "nextImpactFXIdx pooled_gun = 0" "nextMissFXIdx pooled_gun = 0"
  by (simp_all add: pooled_gun_def preStart_def Let_def loadedAmmo_set_loadedAmmo
      reserveAmmo_set_reserveAmmo set_reserveAmmo_eq set_loadedAmmo_eq clamped_loaded_def
      clamped_reserve_def default_props_def new_gun_def)

theorem ownership_round_trip_witness:
  "ammo_invariants default_props pooled_gun \<and>
   loadedAmmo (receiveOwnership default_props
     (Some (fst (transferOwnership default_props 1 2 pooled_gun))) (new_gun False 2)) = 10 \<and>
   reserveAmmo (receiveOwnership default_props
     (Some (fst (transferOwnership default_props 1 2 pooled_gun))) (new_gun False 2)) = 20 \<and>
   impactFX (receiveOwnership default_props
     (Some (fst (transferOwnership default_props 1 2 pooled_gun))) (new_gun False 2))
     = [\<lparr>fx = [11, 12]\<rparr>, \<lparr>fx = [13]\<rparr>]"
  using ownership_round_trip [of default_props pooled_gun 1 2 "new_gun False 2"]
  by (simp add: ammo_invariants_def pooled_gun_fields) (simp add: default_props_def)

lemma smod_in_bounds:
  fixes k n :: int
  assumes "0 \<le> k" and "0 < n"
  shows "0 \<le> k smod n \<and> k smod n < n"
proof -
  have "k smod n = k mod n"
    using assms by (simp add: signed_modulo_int_def sgn_if)
  then show ?thesis using assms by simp
qed

lemma group_at_in_bounds:
  "0 \<le> i \<Longrightarrow> i < int (length groups) \<Longrightarrow> group_at groups i = Inr (fx (groups ! nat i))"
  by (simp add: group_at_def)

lemma getImpactFX_nonempty:
  assumes "0 \<le> nextImpactFXIdx g" and "impactFX g \<noteq> []"
  shows "getImpactFX g =
     Inr (fx (impactFX g ! nat (nextImpactFXIdx g smod int (length (impactFX g)))),
          stop_gizmos (fx (impactFX g ! nat (nextImpactFXIdx g smod int (length (impactFX g)))))
            (g\<lparr>nextImpactFXIdx := nextImpactFXIdx g smod int (length (impactFX g)) + 1\<rparr>))"
proof -
  have "0 < int (length (impactFX g))" using assms(2) by simp
  from smod_in_bounds [OF assms(1) this] show ?thesis
    using assms(2) by (simp add: getImpactFX_def Let_def group_at_in_bounds)
qed

lemma getMissFX_nonempty:
  assumes "0 \<le> nextMissFXIdx g" and "missFX g \<noteq> []"
  shows "getMissFX g =
     Inr (fx (missFX g ! nat (nextMissFXIdx g smod int (length (missFX g)))),
          stop_gizmos (fx (missFX g ! nat (nextMissFXIdx g smod int (length (missFX g)))))
            (g\<lparr>nextMissFXIdx := nextMissFXIdx g smod int (length (missFX g)) + 1\<rparr>))"
proof -
  have "0 < int (length (missFX g))" using assms(2) by simp
  from smod_in_bounds [OF assms(1) this] show ?thesis
    using assms(2) by (simp add: getMissFX_def Let_def group_at_in_bounds)
qed

lemma getImpactFX_total:
  assumes "0 \<le> nextImpactFXIdx g"
  shows "\<not> isl (getImpactFX g)"
proof (cases "impactFX g = []")
  case True
  then show ?thesis by (simp add: getImpactFX_def)
next
  case False
  show ?thesis by (simp add: getImpactFX_nonempty [OF assms False])
qed

lemma getMissFX_total:
  assumes "0 \<le> nextMissFXIdx g"
  shows "\<not> isl (getMissFX g)"
proof (cases "missFX g = []")
  case True
  then show ?thesis by (simp add: getMissFX_def)
next
  case False
  show ?thesis by (simp add: getMissFX_nonempty [OF assms False])
qed

lemma getImpactFX_round_robin:
  assumes "0 \<le> nextImpactFXIdx g" and "impactFX g \<noteq> []"
  shows "let n = int (length (impactFX g)); index = nextImpactFXIdx g smod n
         in 0 \<le> index \<and> index < n \<and>
            (case getImpactFX g of
               Inl e \<Rightarrow> False
             | Inr (fxs, g') \<Rightarrow>
                 fxs = fx (impactFX g ! nat index) \<and> nextImpactFXIdx g' = index + 1 \<and>
                 (\<forall>groups. groups \<noteq> [] \<longrightarrow>
                    \<not> isl (getImpactFX (g'\<lparr>impactFX := groups\<rparr>))))"
proof -
  have b: "0 \<le> nextImpactFXIdx g smod int (length (impactFX g)) \<and>
           nextImpactFXIdx g smod int (length (impactFX g)) < int (length (impactFX g))"
    using smod_in_bounds [OF assms(1), of "int (length (impactFX g))"] assms(2) by simp
  have "\<not> isl (getImpactFX (h\<lparr>impactFX := groups\<rparr>))"
    if "nextImpactFXIdx h = nextImpactFXIdx g smod int (length (impactFX g)) + 1"
    for h groups
    by (rule getImpactFX_total) (use b that in simp)
  then show ?thesis
    unfolding Let_def getImpactFX_nonempty [OF assms] using b by simp
qed

lemma getMissFX_round_robin:
  assumes "0 \<le> nextMissFXIdx g" and "missFX g \<noteq> []"
  shows "let n = int (length (missFX g)); index = nextMissFXIdx g smod n
         in 0 \<le> index \<and> index < n \<and>
            (case getMissFX g of
               Inl e \<Rightarrow> False
             | Inr (fxs, g') \<Rightarrow>
                 fxs = fx (missFX g ! nat index) \<and> nextMissFXIdx g' = index + 1 \<and>
                 (\<forall>groups. groups \<noteq> [] \<longrightarrow>
                    \<not> isl (getMissFX (g'\<lparr>missFX := groups\<rparr>))))"
proof -
  have b: "0 \<le> nextMissFXIdx g smod int (length (missFX g)) \<and>
           nextMissFXIdx g smod int (length (missFX g)) < int (length (missFX g))"
    using smod_in_bounds [OF assms(1), of "int (length (missFX g))"] assms(2) by simp
  have "\<not> isl (getMissFX (h\<lparr>missFX := groups\<rparr>))"
    if "nextMissFXIdx h = nextMissFXIdx g smod int (length (missFX g)) + 1"
    for h groups
    by (rule getMissFX_total) (use b that in simp)
  then show ?thesis
    unfolding Let_def getMissFX_nonempty [OF assms] using b by simp
qed

text \<open>
  C10. \<open>getImpactFX\<close> and \<open>getMissFX\<close> never throw, at any index the weapon stores (the
  index fields start at 0 and are written only here, with \<open>index + 1\<close>, so they are
  never negative: \<open>fx_index_stays_nonneg\<close>). With an empty group list they return the
  empty list and leave the state, the index included, unchanged. With a non-empty list
  the index \<open>nextIdx % length\<close> is in bounds, the group at that index is returned, the
  stored index becomes \<open>(nextIdx % length) + 1\<close>, and the next retrieval does not throw
  whatever non-empty list is installed in between.
\<close>

theorem fx_retrieval_total:
  assumes "0 \<le> nextImpactFXIdx g" and "0 \<le> nextMissFXIdx g"
  shows "(impactFX g = [] \<longrightarrow> getImpactFX g = Inr ([], g)) \<and>
         (missFX g = [] \<longrightarrow> getMissFX g = Inr ([], g)) \<and>
         (impactFX g \<noteq> [] \<longrightarrow>
            (let n = int (length (impactFX g)); index = nextImpactFXIdx g smod n
             in 0 \<le> index \<and> index < n \<and>
                (case getImpactFX g of
                   Inl e \<Rightarrow> False
                 | Inr (fxs, g') \<Rightarrow>
                     fxs = fx (impactFX g ! nat index) \<and> nextImpactFXIdx g' = index + 1 \<and>
                     (\<forall>groups. groups \<noteq> [] \<longrightarrow>
                        \<not> isl (getImpactFX (g'\<lparr>impactFX := groups\<rparr>)))))) \<and>
         (missFX g \<noteq> [] \<longrightarrow>
            (let n = int (length (missFX g)); index = nextMissFXIdx g smod n
             in 0 \<le> index \<and> index < n \<and>
                (case getMissFX g of
                   Inl e \<Rightarrow> False
                 | Inr (fxs, g') \<Rightarrow>
                     fxs = fx (missFX g ! nat index) \<and> nextMissFXIdx g' = index + 1 \<and>
                     (\<forall>groups. groups \<noteq> [] \<longrightarrow>
                        \<not> isl (getMissFX (g'\<lparr>missFX := groups\<rparr>))))))"
  using getImpactFX_round_robin [OF assms(1)] getMissFX_round_robin [OF assms(2)]
  by (simp add: getImpactFX_def [of g] getMissFX_def [of g])

lemma fx_index_stays_nonneg:
  "0 \<le> nextImpactFXIdx (new_gun vr owner) \<and> 0 \<le> nextMissFXIdx (new_gun vr owner)"
  "0 \<le> nextImpactFXIdx g \<Longrightarrow> getImpactFX g = Inr (fxs, g') \<Longrightarrow>
     0 \<le> nextImpactFXIdx g' \<and> nextMissFXIdx g' = nextMissFXIdx g"
  "0 \<le> nextMissFXIdx g \<Longrightarrow> getMissFX g = Inr (fxs, g') \<Longrightarrow>
     0 \<le> nextMissFXIdx g' \<and> nextImpactFXIdx g' = nextImpactFXIdx g"
proof -
  show "0 \<le> nextImpactFXIdx (new_gun vr owner) \<and> 0 \<le> nextMissFXIdx (new_gun vr owner)"
    by (simp add: new_gun_def)
  show "0 \<le> nextImpactFXIdx g' \<and> nextMissFXIdx g' = nextMissFXIdx g"
    if "0 \<le> nextImpactFXIdx g" and r: "getImpactFX g = Inr (fxs, g')"
  proof (cases "impactFX g = []")
    case True
    with that show ?thesis by (simp add: getImpactFX_def)
  next
    case False
    have "0 \<le> nextImpactFXIdx g smod int (length (impactFX g))"
      using smod_in_bounds [OF that(1), of "int (length (impactFX g))"] False by simp
    with r show ?thesis
      unfolding getImpactFX_nonempty [OF that(1) False] by auto
  qed
  show "0 \<le> nextMissFXIdx g' \<and> nextImpactFXIdx g' = nextImpactFXIdx g"
    if "0 \<le> nextMissFXIdx g" and r: "getMissFX g = Inr (fxs, g')"
  proof (cases "missFX g = []")
    case True
    with that show ?thesis by (simp add: getMissFX_def)
  next
    case False
    have "0 \<le> nextMissFXIdx g smod int (length (missFX g))"
      using smod_in_bounds [OF that(1), of "int (length (missFX g))"] False by simp
    with r show ?thesis
      unfolding getMissFX_nonempty [OF that(1) False] by auto
  qed
qed

theorem fx_retrieval_total_witness:
  "0 \<le> nextImpactFXIdx (pooled_gun\<lparr>nextImpactFXIdx := 3\<rparr>) \<and>
   0 \<le> nextMissFXIdx (pooled_gun\<lparr>nextImpactFXIdx := 3\<rparr>) \<and>
   impactFX (pooled_gun\<lparr>nextImpactFXIdx := 3\<rparr>) \<noteq> [] \<and>
   missFX (pooled_gun\<lparr>nextImpactFXIdx := 3\<rparr>) \<noteq> [] \<and>
   (case getImpactFX (pooled_gun\<lparr>nextImpactFXIdx := 3\<rparr>) of
      Inl e \<Rightarrow> False
    | Inr (fxs, g') \<Rightarrow> fxs = [13] \<and> nextImpactFXIdx g' = 2) \<and>
   (case getMissFX (pooled_gun\<lparr>nextImpactFXIdx := 3\<rparr>) of
      Inl e \<Rightarrow> False
    | Inr (fxs, g') \<Rightarrow> fxs = [21] \<and> nextMissFXIdx g' = 1)"
  using fx_retrieval_total [of "pooled_gun\<lparr>nextImpactFXIdx := 3\<rparr>"]
  by (auto simp add: pooled_gun_fields Let_def signed_modulo_int_def split: sum.splits)

text \<open>
  The bound on the index is needed: the remainder of a negative index is negative, and
  the read throws.
\<close>

lemma getImpactFX_negative_index:
  "getImpactFX (pooled_gun\<lparr>nextImpactFXIdx := - 1\<rparr>) = Inl TypeError"
  by (simp add: getImpactFX_def pooled_gun_fields Let_def signed_modulo_int_def group_at_def)

section \<open>A burst of three\<close>



lemma sent_since_self [simp]: "sent_since g g = []"
  by (simp add: sent_since_def)

lemma shots_simps [simp]:
  "shots [] = []" "shots (es @ fs) = shots es @ shots fs" "shots (e # es) = shot_time e @ shots es"
  by (simp_all add: shots_def)

lemma deductions_simps [simp]:
  "deductions [] = []" "deductions (es @ fs) = deductions es @ deductions fs"
  "deductions (e # es) = deduction e @ deductions es"
  by (simp_all add: deductions_def)



























text \<open>
  Two runs: the whole burst on a non-VR device with its cooldown, and a burst that the
  ammo ends after two shots (10 rounds, 4 per shot), the interval cleared.
\<close>

lemma burst_trace_nonVR:
  "map_option (\<lambda>g. (shots (sent_since (loaded_gun False) g),
                     deductions (sent_since (loaded_gun False) g), loadedAmmo g))
     (run_timers (burst_props False)
        [FireDelayTimer, BulletBurstTimer, BulletBurstTimer, BulletBurstTimer,
         AttackCooldownTimer]
        (triggerAttack (burst_props False) (loaded_gun False)))
     = Some ([50, 150, 250], [1, 1, 1], 7)"
  by code_simp

lemma burst_runs_dry:
  "map_option (\<lambda>g. (shots (sent_since (loaded_gun True) g),
                     deductions (sent_since (loaded_gun True) g), loadedAmmo g,
                     bulletBurstTimer g))
     (run_timers (burst_props False\<lparr>ammoPerFire := 4\<rparr>) [BulletBurstTimer]
        (triggerAttack (burst_props False\<lparr>ammoPerFire := 4\<rparr>) (loaded_gun True)))
     = Some ([0, 100], [4, 4], 2, None)"
  by code_simp

section \<open>The launch that shows a hitscan shot\<close>

lemma magnitude_straight_hit: "magnitude (vec_sub (hitPos straight_hit) vec_zero) = 6"
proof -
  have "sqrt 36 = 6" by (rule real_sqrt_unique) simp_all
  then show ?thesis
    by (simp add: magnitude_def vec_sub_def straight_hit_def vec_zero_def)
qed

lemma magnitude_sprayed_miss: "magnitude (vec_sub (hitPos sprayed_miss) vec_zero) = 5"
proof -
  have "sqrt 25 = 5" by (rule real_sqrt_unique) simp_all
  then show ?thesis
    by (simp add: magnitude_def vec_sub_def sprayed_miss_def vec_zero_def)
qed

text \<open>
  C8, as amended. In hitscan mode with a projectile launcher configured and
  \<open>projectileSpeed \<noteq> 0\<close>, for every raycast outcome the projectile is launched with
  the travel duration \<open>distance / projectileSpeed\<close>, where \<open>distance\<close> is the distance from
  the launcher to the computed hit point, plus 4 when the raycast hit something. When
  the spray angle is zero within 0.001 the launcher is not rotated and the projectile is
  launched at once; otherwise the launcher's local rotation is set from the spray angle
  (its sign reversed off VR) and the projectile is launched after a 1 ms timeout.
\<close>

theorem hitscan_projectile_launch:
  assumes "projectileSpeed \<noteq> 0"
  shows "duration (fireWithRaycast_launch projectileSpeed launcherPosition deviceVR gunHit) =
           Some ((magnitude (vec_sub (hitPos gunHit) launcherPosition) +
                  (if hit gunHit \<noteq> None then 4 else 0)) / projectileSpeed) \<and>
         speed (fireWithRaycast_launch projectileSpeed launcherPosition deviceVR gunHit) =
           projectileSpeed \<and>
         (equalsApprox (sprayAngle gunHit) vec_zero (1 / 1000) \<longrightarrow>
            timeout_ms (fireWithRaycast_launch projectileSpeed launcherPosition deviceVR gunHit)
              = None \<and>
            rotation (fireWithRaycast_launch projectileSpeed launcherPosition deviceVR gunHit)
              = None) \<and>
         (\<not> equalsApprox (sprayAngle gunHit) vec_zero (1 / 1000) \<longrightarrow>
            timeout_ms (fireWithRaycast_launch projectileSpeed launcherPosition deviceVR gunHit)
              = Some 1 \<and>
            rotation (fireWithRaycast_launch projectileSpeed launcherPosition deviceVR gunHit)
              = Some (degreesToRadians
                        ((if deviceVR then 1 else - 1) * vec_x (sprayAngle gunHit)),
                      degreesToRadians
                        ((if deviceVR then 1 else - 1) * vec_y (sprayAngle gunHit))))"
  using assms by (simp add: fireWithRaycast_launch_def Let_def js_divide_def)

theorem hitscan_projectile_launch_witness:
  "(150::real) \<noteq> 0 \<and>
   \<not> equalsApprox (sprayAngle sprayed_miss) vec_zero (1 / 1000) \<and>
   duration (fireWithRaycast_launch 150 vec_zero False sprayed_miss) = Some (1 / 30) \<and>
   timeout_ms (fireWithRaycast_launch 150 vec_zero False sprayed_miss) = Some 1 \<and>
   rotation (fireWithRaycast_launch 150 vec_zero False sprayed_miss)
     = Some (degreesToRadians (- 2), degreesToRadians 1)"
  using hitscan_projectile_launch [of 150 vec_zero False sprayed_miss]
  by (simp add: magnitude_sprayed_miss) (simp add: sprayed_miss_def equalsApprox_def vec_zero_def)

text \<open>
  C8 as stated fails for a hit 6 m from the launcher with no spray and speed 2: the
  duration is (6 + 4) / 2 = 5, not 6 / 2 = 3, and the projectile is launched at once,
  with no rotation set and no delay.
\<close>

theorem hitscan_projectile_launch_counterexample:
  "duration (fireWithRaycast_launch 2 vec_zero True straight_hit) = Some 5 \<and>
   magnitude (vec_sub (hitPos straight_hit) vec_zero) / 2 = 3 \<and>
   timeout_ms (fireWithRaycast_launch 2 vec_zero True straight_hit) = None \<and>
   rotation (fireWithRaycast_launch 2 vec_zero True straight_hit) = None"
proof -
  have "equalsApprox (sprayAngle straight_hit) vec_zero (1 / 1000)"
    by (simp add: straight_hit_def equalsApprox_def vec_zero_def)
  moreover have "hit straight_hit \<noteq> None"
    by (simp add: straight_hit_def)
  ultimately show ?thesis
    by (simp add: fireWithRaycast_launch_def Let_def js_divide_def magnitude_straight_hit)
qed

end
